theory Spec2Isabelle
  imports Main
begin

section \<open>Data model\<close>

text \<open>
  The repository holds two revisions of the account code: \<^verbatim>\<open>src/account.go\<close> and the
  second file of \<^verbatim>\<open>src/unnamed/part_000\<close>. The authentication functions are the same in
  both up to error texts, except for \<^verbatim>\<open>authenticate\<close> and \<^verbatim>\<open>submitAnswers\<close>, which gained an
  error check each in \<^verbatim>\<open>part_000\<close>, and for \<^verbatim>\<open>ChangeName\<close>. A function that differs is
  modelled twice: under its own name from \<^verbatim>\<open>part_000\<close>, and with the suffix \<open>_acc\<close> from
  \<^verbatim>\<open>src/account.go\<close>.

  Go strings are byte strings, as \<open>string\<close> is here. A \<^verbatim>\<open>time.Time\<close> is an integer count of
  nanoseconds, \<open>0\<close> being the zero value \<^verbatim>\<open>time.Time{}\<close>; a \<^verbatim>\<open>time.Duration\<close> is an integer
  count of nanoseconds.
\<close>

type_synonym Time = int
type_synonym Duration = int

definition Second :: Duration where
  "Second = 1000000000"

definition zero_Time :: Time where
  "zero_Time = 0"

record SqAnswer =
  Answer_ID :: int
  Question_ID :: int
  Question_Question :: string

record MCaccount =
  Email :: string
  Password :: string
  SecurityQuestions :: "SqAnswer list"
  SecurityAnswers :: "string list"
  Bearer :: string
  UUID :: string
  Username :: string
  Type :: string
  Authenticated :: bool

text \<open>The zero value \<^verbatim>\<open>MCaccount{}\<close>.\<close>

definition zero_MCaccount :: MCaccount where
  "zero_MCaccount = \<lparr>Email = [], Password = [], SecurityQuestions = [], SecurityAnswers = [],
     Bearer = [], UUID = [], Username = [], Type = [], Authenticated = False\<rparr>"

text \<open>
  Errors. \<open>LibError\<close> is an error made by a library call (network, TLS, reading a body,
  JSON), known by its text only: the environment hands out texts, never errors, so that
  no library call can return one of the errors this code makes. The others are the
  errors this code makes itself with \<^verbatim>\<open>errors.New\<close> and
  \<^verbatim>\<open>fmt.Errorf\<close>, the formatted ones with the text of \<^verbatim>\<open>resp.Status\<close> they embed.
  \<open>NumError\<close> is the \<^verbatim>\<open>*strconv.NumError\<close> of \<^verbatim>\<open>strconv.Atoi\<close>, with the rejected text.
\<close>

datatype error =
    LibError string
  | NumError string
  | NotAuthenticated
  | InvalidCredentials
  | ReachedEndOfAuthenticate
  | SecurityQuestionsStatus string
  | NeedToAnswerStatus string
  | NotEnoughAnswers
  | QuestionsNotLoaded
  | WrongAnswer
  | SubmitAnswersStatus string

record NameChangeReturn =
  Account :: MCaccount
  Username_ret :: string
  ChangedName :: bool
  StatusCode :: int
  SendTime :: Time
  ReceiveTime :: Time

text \<open>A call either returns or panics (a nil pointer is dereferenced).\<close>

datatype 'a outcome = Returned 'a | Panic

record request =
  req_method :: string
  req_url :: string
  req_headers :: "(string \<times> string) list"
  req_body :: "string option"

text \<open>
  What the program does to the outside world, in order. \<open>Sleep d\<close> is a call
  \<^verbatim>\<open>time.Sleep(d)\<close>, \<open>Write bs\<close> a \<^verbatim>\<open>conn.Write(bs)\<close>, \<open>Read n\<close> a \<^verbatim>\<open>conn.Read\<close> into a
  buffer of \<open>n\<close> bytes, \<open>HttpDo r\<close> a \<^verbatim>\<open>http.DefaultClient.Do(r)\<close>.
\<close>

datatype event =
    Sleep Duration
  | Dial
  | Write string
  | Read nat
  | Close
  | HttpDo request

text \<open>
  The state a method runs on: the account behind the receiver pointer, the wall clock and
  the events so far.
\<close>

record st =
  account :: MCaccount
  clock :: Time
  trace :: "event list"

section \<open>The raw connection\<close>

text \<open>
  The network as one attempt meets it: whether \<^verbatim>\<open>tls.Dial\<close> fails, how long the dial, a
  write and the read take, and the bytes the single \<^verbatim>\<open>conn.Read\<close> delivers.
\<close>

record net =
  dial_err :: "string option"
  dial_lat :: nat
  write_lat :: nat
  read_lat :: nat
  response :: string

definition emit :: "event \<Rightarrow> st \<Rightarrow> st" where
  "emit e s = s\<lparr>trace := trace s @ [e]\<rparr>"

definition advance :: "Duration \<Rightarrow> st \<Rightarrow> st" where
  "advance d s = s\<lparr>clock := clock s + d\<rparr>"

definition time_Now :: "st \<Rightarrow> Time" where
  "time_Now s = clock s"

definition time_Until :: "Time \<Rightarrow> st \<Rightarrow> Duration" where
  "time_Until t s = t - time_Now s"

definition time_After :: "Time \<Rightarrow> Time \<Rightarrow> bool" where
  "time_After t u = (u < t)"

text \<open>
  \<^verbatim>\<open>time.Sleep(d)\<close> pauses for \<open>d\<close>; a negative or zero duration makes it return
  immediately.
\<close>

definition time_Sleep :: "Duration \<Rightarrow> st \<Rightarrow> st" where
  "time_Sleep d s = advance (max 0 d) (emit (Sleep d) s)"

text \<open>
  \<^verbatim>\<open>tls.Dial\<close> returns a connection and no error, or a nil connection and an error. The
  connection is \<open>Some ()\<close>, nil is \<open>None\<close>.
\<close>

definition tls_Dial :: "net \<Rightarrow> st \<Rightarrow> (unit option \<times> error option) \<times> st" where
  "tls_Dial n s =
     ((case dial_err n of None \<Rightarrow> (Some (), None) | Some m \<Rightarrow> (None, Some (LibError m))),
      advance (int (dial_lat n)) (emit Dial s))"

text \<open>
  The methods of \<^verbatim>\<open>*tls.Conn\<close> read fields of their receiver first: on a nil connection
  they panic and nothing is written, read or closed. Their own results (byte counts and
  errors) are never looked at by the callers here.
\<close>

definition conn_Write :: "net \<Rightarrow> unit option \<Rightarrow> string \<Rightarrow> st \<Rightarrow> st option" where
  "conn_Write n conn bs s =
     (case conn of None \<Rightarrow> None
      | Some _ \<Rightarrow> Some (advance (int (write_lat n)) (emit (Write bs) s)))"

text \<open>
  \<^verbatim>\<open>conn.Read(recvd)\<close> overwrites a prefix of the buffer with what arrived and leaves the
  rest as it was. The result is the buffer afterwards.
\<close>

definition conn_Read :: "net \<Rightarrow> unit option \<Rightarrow> string \<Rightarrow> st \<Rightarrow> (string \<times> st) option" where
  "conn_Read n conn recvd s =
     (case conn of None \<Rightarrow> None
      | Some _ \<Rightarrow>
          (let got = take (length recvd) (response n)
           in Some (got @ drop (length got) recvd,
                    advance (int (read_lat n)) (emit (Read (length recvd)) s))))"

definition conn_Close :: "unit option \<Rightarrow> st \<Rightarrow> st option" where
  "conn_Close conn s = (case conn of None \<Rightarrow> None | Some _ \<Rightarrow> Some (emit Close s))"

text \<open>\<^verbatim>\<open>make([]byte, n)\<close>: \<open>n\<close> zero bytes.\<close>

definition make_bytes :: "nat \<Rightarrow> string" where
  "make_bytes n = replicate n (CHR 0x00)"

section \<open>Library functions on strings\<close>

definition CR :: char where "CR = CHR 0x0D"
definition LF :: char where "LF = CHR 0x0A"
definition DQ :: char where "DQ = CHR 0x22"
definition TAB :: char where "TAB = CHR 0x09"

definition crlf :: string where
  "crlf = [CR, LF]"

text \<open>The verb \<^verbatim>\<open>%d\<close> of \<^verbatim>\<open>fmt.Sprintf\<close> on a length: decimal digits, no sign.\<close>

definition digit_char :: "nat \<Rightarrow> char" where
  "digit_char d = char_of (48 + d)"

fun decimal :: "nat \<Rightarrow> string" where
  "decimal n = (if n < 10 then [digit_char n] else decimal (n div 10) @ [digit_char (n mod 10)])"

declare decimal.simps [simp del]

text \<open>
  \<^verbatim>\<open>strconv.Atoi\<close>: an optional sign, then one or more ASCII digits; anything else is a
  syntax error with value 0. A value outside 64 bits is a range error with the nearest
  bound as value.
\<close>

definition is_digit :: "char \<Rightarrow> bool" where
  "is_digit ch = (48 \<le> (of_char ch :: nat) \<and> (of_char ch :: nat) \<le> 57)"

fun atoi_digits :: "string \<Rightarrow> int \<Rightarrow> int option" where
  "atoi_digits [] n = Some n"
| "atoi_digits (ch # cs) n =
     (if is_digit ch then atoi_digits cs (n * 10 + (int (of_char ch) - 48)) else None)"

definition Atoi :: "string \<Rightarrow> int \<times> error option" where
  "Atoi s =
     (let neg = (s \<noteq> [] \<and> hd s = CHR ''-'');
          s1 = (if s \<noteq> [] \<and> (hd s = CHR ''-'' \<or> hd s = CHR ''+'') then tl s else s)
      in if s1 = [] then (0, Some (NumError s))
         else case atoi_digits s1 0 of
                None \<Rightarrow> (0, Some (NumError s))
              | Some v \<Rightarrow>
                  if neg then (if 2 ^ 63 < v then (- (2 ^ 63), Some (NumError s)) else (- v, None))
                  else (if 2 ^ 63 - 1 < v then (2 ^ 63 - 1, Some (NumError s)) else (v, None)))"

section \<open>ChangeName\<close>

subsection \<open>The prebuilt requests\<close>

text \<open>The JSON body \<^verbatim>\<open>{"profileName": "%s"}\<close>.\<close>

definition profile_data :: "string \<Rightarrow> string" where
  "profile_data username =
     ''{'' @ [DQ] @ ''profileName'' @ [DQ] @ '': '' @ [DQ] @ username @ [DQ] @ ''}''"

text \<open>The create-profile request, the same in \<open>ChangeName\<close> and \<open>ChangeName1\<close>.\<close>

definition post_payload :: "MCaccount \<Rightarrow> string \<Rightarrow> string" where
  "post_payload acc username =
     (let data = profile_data username
      in ''POST /minecraft/profile HTTP/1.1'' @ crlf @
         ''Host: api.minecraftservices.com'' @ crlf @
         ''Authorization: Bearer '' @ Bearer acc @ crlf @
         ''Content-Type: application/json'' @ crlf @
         ''Content-Length: '' @ decimal (length data) @ crlf @
         crlf @
         data)"

definition ChangeName_payload :: "MCaccount \<Rightarrow> string \<Rightarrow> bool \<Rightarrow> string" where
  "ChangeName_payload acc username createProfile =
     (if createProfile then post_payload acc username
      else ''PUT /minecraft/profile/name/'' @ username @ '' HTTP/1.1'' @ crlf @
           ''Host: api.minecraftservices.com'' @ crlf @
           ''Authorization: Bearer '' @ Bearer acc @ crlf @ crlf)"

definition ChangeName1_payload :: "MCaccount \<Rightarrow> string \<Rightarrow> bool \<Rightarrow> string" where
  "ChangeName1_payload acc username createProfile =
     (if createProfile then post_payload acc username
      else ''POST /minecraft/profile HTTP/1.1'' @ crlf @
           ''Host: api.minecraftservices.com'' @ crlf @
           ''Authorization: Bearer '' @ Bearer acc @ crlf @ crlf)"

subsection \<open>The timed transmission of \<^verbatim>\<open>part_000\<close>\<close>

text \<open>
  \<open>ChangeName\<close> and \<open>ChangeName1\<close> are the same text from \<^verbatim>\<open>recvd := make([]byte, 4096)\<close>
  to the end; \<open>transmit\<close> is that text. The first \<^verbatim>\<open>conn.Write\<close> stands before the check
  of the dial's error. The two slices of the payload are in range, since both requests
  are longer than two bytes (\<open>payload_at_least_two\<close> below).
\<close>

definition failed :: "string \<Rightarrow> Time \<Rightarrow> NameChangeReturn" where
  "failed username sendTime =
     \<lparr>Account = zero_MCaccount, Username_ret = username, ChangedName = False,
      StatusCode = 0, SendTime = sendTime, ReceiveTime = zero_Time\<rparr>"

definition transmit ::
  "net \<Rightarrow> string \<Rightarrow> string \<Rightarrow> Time \<Rightarrow> st \<Rightarrow> (NameChangeReturn \<times> error option) outcome \<times> st"
where
  "transmit n payload username changeTime s0 =
     (let recvd = make_bytes 4096;
          s1 = time_Sleep (time_Until changeTime s0 - Second * 20) s0;
          ((conn, err), s2) = tls_Dial n s1
      in case conn_Write n conn (take (length payload - 2) payload) s2 of
           None \<Rightarrow> (Panic, s2)
         | Some s3 \<Rightarrow>
             if err \<noteq> None then (Returned (failed username zero_Time, err), s3)
             else
               (let s4 = time_Sleep (time_Until changeTime s3) s3
                in case conn_Write n conn (drop (length payload - 2) payload) s4 of
                     None \<Rightarrow> (Panic, s4)
                   | Some s5 \<Rightarrow>
                       (let sendTime = time_Now s5
                        in case conn_Read n conn recvd s5 of
                             None \<Rightarrow> (Panic, s5)
                           | Some (recvd', s6) \<Rightarrow>
                               (let recvTime = time_Now s6
                                in case conn_Close conn s6 of
                                     None \<Rightarrow> (Panic, s6)
                                   | Some s7 \<Rightarrow>
                                       (let (status, err') = Atoi (take 3 (drop 9 recvd'))
                                        in if err' \<noteq> None
                                           then (Returned (failed username sendTime, err'), s7)
                                           else (Returned
                                                  (\<lparr>Account = account s7, Username_ret = username,
                                                    ChangedName = (status < 300),
                                                    StatusCode = status, SendTime = sendTime,
                                                    ReceiveTime = recvTime\<rparr>, None), s7))))))"

definition ChangeName ::
  "net \<Rightarrow> string \<Rightarrow> Time \<Rightarrow> bool \<Rightarrow> st \<Rightarrow> (NameChangeReturn \<times> error option) outcome \<times> st"
where
  "ChangeName n username changeTime createProfile s =
     transmit n (ChangeName_payload (account s) username createProfile) username changeTime s"

definition ChangeName1 ::
  "net \<Rightarrow> string \<Rightarrow> Time \<Rightarrow> bool \<Rightarrow> st \<Rightarrow> (NameChangeReturn \<times> error option) outcome \<times> st"
where
  "ChangeName1 n username changeTime createProfile s =
     transmit n (ChangeName1_payload (account s) username createProfile) username changeTime s"

subsection \<open>\<open>ChangeName\<close> of \<^verbatim>\<open>src/account.go\<close>\<close>

text \<open>
  This revision builds its request with \<^verbatim>\<open>generatePayload\<close>, which is not in the sources
  at hand: it is the parameter \<open>gen\<close>, from method, URL, headers and body to a payload and
  an error. The error of \<^verbatim>\<open>strconv.Atoi\<close> is overwritten and never read.
\<close>

type_synonym generatePayload =
  "string \<Rightarrow> string \<Rightarrow> (string \<times> string) list \<Rightarrow> string \<Rightarrow> string \<times> error option"

definition ChangeName_acc_payload ::
  "generatePayload \<Rightarrow> MCaccount \<Rightarrow> string \<Rightarrow> bool \<Rightarrow> string \<times> error option"
where
  "ChangeName_acc_payload gen acc username createProfile =
     (let headers = [(''Authorization'', ''Bearer '' @ Bearer acc),
                     (''Accept'', ''application/json'')]
      in if createProfile
         then gen ''POST'' ''https://api.minecraftservices.com/minecraft/profile'' headers
                (profile_data username)
         else gen ''PUT''
                (''https://api.minecraftservices.com/minecraft/profile/name/'' @ username)
                headers [])"

definition ChangeName_acc ::
  "generatePayload \<Rightarrow> net \<Rightarrow> string \<Rightarrow> Time \<Rightarrow> bool \<Rightarrow> st
     \<Rightarrow> (NameChangeReturn \<times> error option) outcome \<times> st"
where
  "ChangeName_acc gen n username changeTime createProfile s0 =
     (let (payload, err) = ChangeName_acc_payload gen (account s0) username createProfile;
          recvd = make_bytes 12
      in if err \<noteq> None then (Returned (failed username zero_Time, err), s0)
         else
           (let s1 = (if time_After changeTime (time_Now s0)
                      then time_Sleep (time_Until changeTime s0 - Second * 20) s0 else s0);
                ((conn, err1), s2) = tls_Dial n s1
            in case conn_Write n conn payload s2 of
                 None \<Rightarrow> (Panic, s2)
               | Some s3 \<Rightarrow>
                   (let sendTime = time_Now s3
                    in if err1 \<noteq> None then (Returned (failed username sendTime, err1), s3)
                       else
                         case conn_Write n conn crlf s3 of
                           None \<Rightarrow> (Panic, s3)
                         | Some s4 \<Rightarrow>
                             (case conn_Read n conn recvd s4 of
                                None \<Rightarrow> (Panic, s4)
                              | Some (recvd', s5) \<Rightarrow>
                                  (let recvTime = time_Now s5;
                                       (status, err2) = Atoi (take 3 (drop 9 recvd'))
                                   in (Returned
                                        (\<lparr>Account = account s5, Username_ret = username,
                                          ChangedName = (status < 300), StatusCode = status,
                                          SendTime = sendTime, ReceiveTime = recvTime\<rparr>,
                                         None), s5))))))"

section \<open>The identity provider\<close>

text \<open>
  The provider is reached through \<^verbatim>\<open>http.DefaultClient.Do\<close>, which gives a transport error
  and a nil response, or a response: a status code, the status text, and the body, whose
  reading (\<^verbatim>\<open>ioutil.ReadAll\<close>) gives an error or the bytes. The JSON functions are the
  library's and are parameters here. \<open>Unmarshal_auth\<close> gives what \<^verbatim>\<open>json.Unmarshal\<close> leaves
  in the \<^verbatim>\<open>authenticateReqResp\<close> it is handed, and its error.
\<close>

record response =
  resp_StatusCode :: int
  resp_Status :: string
  resp_Body :: "string + string"

record authenticateReqResp =
  User_Properties :: "(string \<times> string) list"
  User_Username :: string
  User_ID :: string
  Accesstoken :: string
  Clienttoken :: string

record submitPostJson =
  ID :: int
  Answer :: string

record provider =
  Do :: "request \<Rightarrow> string + response"
  Unmarshal_auth :: "string \<Rightarrow> authenticateReqResp \<times> string option"
  Unmarshal_sqs :: "string \<Rightarrow> string + SqAnswer list"
  Marshal :: "submitPostJson list \<Rightarrow> string + string"

definition http_Do :: "provider \<Rightarrow> request \<Rightarrow> st \<Rightarrow> (string + response) \<times> st" where
  "http_Do p req s = (Do p req, emit (HttpDo req) s)"

text \<open>
  \<^verbatim>\<open>http.NewRequest\<close> fails on a method or a URL that does not parse. Every call of this
  code passes literals that do, so the request is always made and the error is nil.
\<close>

definition http_NewRequest :: "string \<Rightarrow> string \<Rightarrow> string option \<Rightarrow> request" where
  "http_NewRequest method url body =
     \<lparr>req_method = method, req_url = url, req_headers = [], req_body = body\<rparr>"

definition Header_Add :: "string \<Rightarrow> string \<Rightarrow> request \<Rightarrow> request" where
  "Header_Add k v req = req\<lparr>req_headers := req_headers req @ [(k, v)]\<rparr>"

definition Header_Set :: "string \<Rightarrow> string \<Rightarrow> request \<Rightarrow> request" where
  "Header_Set k v req = req\<lparr>req_headers := filter (\<lambda>h. fst h \<noteq> k) (req_headers req) @ [(k, v)]\<rparr>"

definition AuthenticatedReq ::
  "MCaccount \<Rightarrow> string \<Rightarrow> string \<Rightarrow> string option \<Rightarrow> error + request"
where
  "AuthenticatedReq acc method url body =
     (let req = http_NewRequest method url body
      in if Bearer acc = [] then Inl NotAuthenticated
         else Inr (Header_Set ''Content-Type'' ''application/json''
                     (Header_Add ''Authorization'' (''Bearer '' @ Bearer acc) req)))"

subsection \<open>authenticate\<close>

definition authenticate_payload :: "string \<Rightarrow> string \<Rightarrow> string" where
  "authenticate_payload email password =
     ''{'' @ [LF] @
     ''    '' @ [DQ] @ ''agent'' @ [DQ] @ '': {'' @ replicate 30 (CHR '' '') @ [LF] @
     ''        '' @ [DQ] @ ''name'' @ [DQ] @ '': '' @ [DQ] @ ''Minecraft'' @ [DQ] @ '','' @
       replicate 16 (CHR '' '') @ [LF] @
     ''        '' @ [DQ] @ ''version'' @ [DQ] @ '': 1'' @ replicate 24 (CHR '' '') @ [LF] @
     ''    },'' @ [LF] @
     ''    '' @ [DQ] @ ''username'' @ [DQ] @ '': '' @ [DQ] @ email @ [DQ] @ '','' @
       replicate 6 (CHR '' '') @ [LF] @
     ''    '' @ [DQ] @ ''password'' @ [DQ] @ '': '' @ [DQ] @ password @ [DQ] @ '','' @ [LF] @
     [TAB, DQ] @ ''requestUser'' @ [DQ] @ '': true'' @ [LF] @
     ''}''"

text \<open>The request of the credential exchange, the same in both revisions.\<close>

definition authenticate_request :: "MCaccount \<Rightarrow> request" where
  "authenticate_request acc =
     Header_Set ''Content-Type'' ''application/json''
       (http_NewRequest ''POST'' ''https://authserver.mojang.com/authenticate''
          (Some (authenticate_payload (Email acc) (Password acc))))"

definition authenticate :: "provider \<Rightarrow> st \<Rightarrow> error option \<times> st" where
  "authenticate p s =
     (let request = authenticate_request (account s);
          (r, s1) = http_Do p request s
      in case r of
           Inl err \<Rightarrow> (Some (LibError err), s1)
         | Inr resp \<Rightarrow>
             if resp_StatusCode resp < 300 then
               (case resp_Body resp of
                  Inl err \<Rightarrow> (Some (LibError err), s1)
                | Inr b \<Rightarrow>
                    (let (AccountInfo, err) = Unmarshal_auth p b
                     in case err of
                          Some m \<Rightarrow> (Some (LibError m), s1)
                        | None \<Rightarrow>
                            (None, s1\<lparr>account := (account s1)
                                      \<lparr>Bearer := Accesstoken AccountInfo,
                                       Username := User_Username AccountInfo,
                                       UUID := User_ID AccountInfo\<rparr>\<rparr>)))
             else if resp_StatusCode resp = 403 then (Some InvalidCredentials, s1)
             else (Some ReachedEndOfAuthenticate, s1))"

text \<open>
  In \<^verbatim>\<open>src/account.go\<close> the error of \<^verbatim>\<open>json.Unmarshal\<close> is not looked at, and the bearer is
  assigned twice.
\<close>

definition authenticate_acc :: "provider \<Rightarrow> st \<Rightarrow> error option \<times> st" where
  "authenticate_acc p s =
     (let request = authenticate_request (account s);
          (r, s1) = http_Do p request s
      in case r of
           Inl err \<Rightarrow> (Some (LibError err), s1)
         | Inr resp \<Rightarrow>
             if resp_StatusCode resp < 300 then
               (case resp_Body resp of
                  Inl err \<Rightarrow> (Some (LibError err), s1)
                | Inr b \<Rightarrow>
                    (let (AccountInfo, err) = Unmarshal_auth p b
                     in (None, s1\<lparr>account := (account s1)
                                   \<lparr>Bearer := Accesstoken AccountInfo,
                                    Username := User_Username AccountInfo,
                                    UUID := User_ID AccountInfo,
                                    Bearer := Accesstoken AccountInfo\<rparr>\<rparr>)))
             else if resp_StatusCode resp = 403 then (Some InvalidCredentials, s1)
             else (Some ReachedEndOfAuthenticate, s1))"

subsection \<open>The security challenge\<close>

definition loadSecurityQuestions :: "provider \<Rightarrow> st \<Rightarrow> error option \<times> st" where
  "loadSecurityQuestions p s =
     (case AuthenticatedReq (account s) ''GET''
             ''https://api.mojang.com/user/security/challenges'' None of
        Inl err \<Rightarrow> (Some err, s)
      | Inr req \<Rightarrow>
          (let (r, s1) = http_Do p req s
           in case r of
                Inl err \<Rightarrow> (Some (LibError err), s1)
              | Inr resp \<Rightarrow>
                  if 400 \<le> resp_StatusCode resp
                  then (Some (SecurityQuestionsStatus (resp_Status resp)), s1)
                  else
                    (case resp_Body resp of
                       Inl err \<Rightarrow> (Some (LibError err), s1)
                     | Inr respBytes \<Rightarrow>
                         (case Unmarshal_sqs p respBytes of
                            Inl err \<Rightarrow> (Some (LibError err), s1)
                          | Inr sqAnswers \<Rightarrow>
                              (None, s1\<lparr>account := (account s1)
                                        \<lparr>SecurityQuestions := sqAnswers\<rparr>\<rparr>)))))"

definition needToAnswer :: "provider \<Rightarrow> st \<Rightarrow> (bool \<times> error option) \<times> st" where
  "needToAnswer p s =
     (case AuthenticatedReq (account s) ''GET''
             ''https://api.mojang.com/user/security/location'' None of
        Inl err \<Rightarrow> ((False, Some err), s)
      | Inr req \<Rightarrow>
          (let (r, s1) = http_Do p req s
           in case r of
                Inl err \<Rightarrow> ((True, Some (LibError err)), s1)
              | Inr resp \<Rightarrow>
                  if resp_StatusCode resp = 204 then ((False, None), s1)
                  else if resp_StatusCode resp = 403 then ((True, None), s1)
                  else ((True, Some (NeedToAnswerStatus (resp_Status resp))), s1)))"

text \<open>
  The loop of \<open>submitAnswers\<close> pairs the loaded questions with the answers by position;
  it runs only when both have three elements.
\<close>

definition jsonContent :: "MCaccount \<Rightarrow> submitPostJson list" where
  "jsonContent acc =
     map (\<lambda>(sq, a). \<lparr>ID = Answer_ID sq, Answer = a\<rparr>)
       (zip (SecurityQuestions acc) (SecurityAnswers acc))"

definition submitAnswers :: "provider \<Rightarrow> st \<Rightarrow> error option \<times> st" where
  "submitAnswers p s =
     (if length (SecurityAnswers (account s)) \<noteq> 3 then (Some NotEnoughAnswers, s)
      else if length (SecurityQuestions (account s)) \<noteq> 3 then (Some QuestionsNotLoaded, s)
      else
        (case Marshal p (jsonContent (account s)) of
           Inl err \<Rightarrow> (Some (LibError err), s)
         | Inr jsonStr \<Rightarrow>
             (case AuthenticatedReq (account s) ''POST''
                     ''https://api.mojang.com/user/security/location'' (Some jsonStr) of
                Inl err \<Rightarrow> (Some err, s)
              | Inr req \<Rightarrow>
                  (let (r, s1) = http_Do p req s
                   in case r of
                        Inl err \<Rightarrow> (Some (LibError err), s1)
                      | Inr resp \<Rightarrow>
                          if resp_StatusCode resp = 204 then (None, s1)
                          else if resp_StatusCode resp = 403 then (Some WrongAnswer, s1)
                          else (Some (SubmitAnswersStatus (resp_Status resp)), s1)))))"

text \<open>
  In \<^verbatim>\<open>src/account.go\<close> the error of \<^verbatim>\<open>http.DefaultClient.Do\<close> is not checked: when the request
  fails the response is nil and reading its status code panics.
\<close>

definition submitAnswers_acc :: "provider \<Rightarrow> st \<Rightarrow> error option outcome \<times> st" where
  "submitAnswers_acc p s =
     (if length (SecurityAnswers (account s)) \<noteq> 3 then (Returned (Some NotEnoughAnswers), s)
      else if length (SecurityQuestions (account s)) \<noteq> 3
      then (Returned (Some QuestionsNotLoaded), s)
      else
        (case Marshal p (jsonContent (account s)) of
           Inl err \<Rightarrow> (Returned (Some (LibError err)), s)
         | Inr jsonStr \<Rightarrow>
             (case AuthenticatedReq (account s) ''POST''
                     ''https://api.mojang.com/user/security/location'' (Some jsonStr) of
                Inl err \<Rightarrow> (Returned (Some err), s)
              | Inr req \<Rightarrow>
                  (let (r, s1) = http_Do p req s
                   in case r of
                        Inl err \<Rightarrow> (Panic, s1)
                      | Inr resp \<Rightarrow>
                          if resp_StatusCode resp = 204 then (Returned None, s1)
                          else if resp_StatusCode resp = 403
                          then (Returned (Some WrongAnswer), s1)
                          else (Returned (Some (SubmitAnswersStatus (resp_Status resp))),
                                s1)))))"

subsection \<open>MojangAuthenticate\<close>

definition set_Authenticated :: "st \<Rightarrow> st" where
  "set_Authenticated s = s\<lparr>account := (account s)\<lparr>Authenticated := True\<rparr>\<rparr>"

definition MojangAuthenticate :: "provider \<Rightarrow> st \<Rightarrow> error option \<times> st" where
  "MojangAuthenticate p s =
     (let (err, s1) = authenticate p s
      in if err \<noteq> None then (err, s1)
         else
           (let (err, s2) = loadSecurityQuestions p s1
            in if err \<noteq> None then (err, s2)
               else if length (SecurityQuestions (account s2)) = 0
               then (None, set_Authenticated s2)
               else
                 (let ((answerNeeded, err), s3) = needToAnswer p s2
                  in if err \<noteq> None then (err, s3)
                     else if \<not> answerNeeded then (None, set_Authenticated s3)
                     else
                       (let (err, s4) = submitAnswers p s3
                        in if err \<noteq> None then (err, s4)
                           else (None, set_Authenticated s4)))))"

text \<open>The same text over the functions of \<^verbatim>\<open>src/account.go\<close>.\<close>

definition MojangAuthenticate_acc :: "provider \<Rightarrow> st \<Rightarrow> error option outcome \<times> st" where
  "MojangAuthenticate_acc p s =
     (let (err, s1) = authenticate_acc p s
      in if err \<noteq> None then (Returned err, s1)
         else
           (let (err, s2) = loadSecurityQuestions p s1
            in if err \<noteq> None then (Returned err, s2)
               else if length (SecurityQuestions (account s2)) = 0
               then (Returned None, set_Authenticated s2)
               else
                 (let ((answerNeeded, err), s3) = needToAnswer p s2
                  in if err \<noteq> None then (Returned err, s3)
                     else if \<not> answerNeeded then (Returned None, set_Authenticated s3)
                     else
                       (case submitAnswers_acc p s3 of
                          (Panic, s4) \<Rightarrow> (Panic, s4)
                        | (Returned err, s4) \<Rightarrow>
                            if err \<noteq> None then (Returned err, s4)
                            else (Returned None, set_Authenticated s4)))))"

section \<open>Reading traces\<close>

text \<open>
  The events a call adds to the trace, the byte strings it writes, what happens between
  its first and its second write, the durations it hands to \<^verbatim>\<open>time.Sleep\<close>, and the time it
  spends suspended in those sleeps.
\<close>

definition new_events :: "st \<Rightarrow> st \<Rightarrow> event list" where
  "new_events s s' = drop (length (trace s)) (trace s')"

fun writes :: "event list \<Rightarrow> string list" where
  "writes [] = []"
| "writes (Write bs # es) = bs # writes es"
| "writes (e # es) = writes es"






text \<open>The requests handed to \<^verbatim>\<open>http.DefaultClient.Do\<close>.\<close>

fun requests :: "event list \<Rightarrow> request list" where
  "requests [] = []"
| "requests (HttpDo r # es) = r # requests es"
| "requests (e # es) = requests es"

text \<open>The three decimal digits of a status code below 1000, as a status line carries them.\<close>

definition three_digits :: "nat \<Rightarrow> string" where
  "three_digits k = [digit_char (k div 100), digit_char (k div 10 mod 10), digit_char (k mod 10)]"

section \<open>Example inputs\<close>

definition ex_account :: MCaccount where
  "ex_account = \<lparr>Email = ''a@b.c'', Password = ''pw'', SecurityQuestions = [],
     SecurityAnswers = [], Bearer = ''tok'', UUID = ''id'', Username = ''old'', Type = ''mj'',
     Authenticated = True\<rparr>"

text \<open>The clock stands at 100 ns; nothing has happened yet.\<close>

definition ex_st :: st where
  "ex_st = \<lparr>account = ex_account, clock = 100, trace = []\<rparr>"

text \<open>A network on which the dial succeeds and the read delivers \<open>resp\<close>.\<close>

definition ex_net :: "string \<Rightarrow> net" where
  "ex_net resp = \<lparr>dial_err = None, dial_lat = 5, write_lat = 1, read_lat = 7, response = resp\<rparr>"

text \<open>A network on which the dial fails.\<close>

definition ex_net_down :: net where
  "ex_net_down = \<lparr>dial_err = Some ''no such host'', dial_lat = 5, write_lat = 1, read_lat = 7,
     response = []\<rparr>"

definition ex_gen :: generatePayload where
  "ex_gen method url headers body = (method @ '' '' @ url @ crlf @ body @ crlf, None)"

definition ex_ret_200 :: NameChangeReturn where
  "ex_ret_200 = \<lparr>Account = ex_account, Username_ret = ''abc'', ChangedName = True,
     StatusCode = 200, SendTime = 107, ReceiveTime = 114\<rparr>"

text \<open>
  A provider that answers every request: the credential exchange with status
  \<open>auth_code\<close>, the list of challenges with status 200 and the questions \<open>sqs\<close>, the probe
  with \<open>need_code\<close>, the submission of the answers with \<open>submit_code\<close>.
\<close>

definition ex_sq :: "int \<Rightarrow> SqAnswer" where
  "ex_sq i = \<lparr>Answer_ID = i, Question_ID = i + 100, Question_Question = ''q''\<rparr>"

definition ex_resp :: "int \<Rightarrow> response" where
  "ex_resp code = \<lparr>resp_StatusCode = code, resp_Status = ''status'', resp_Body = Inr ''{}''\<rparr>"

definition ex_provider :: "int \<Rightarrow> SqAnswer list \<Rightarrow> int \<Rightarrow> int \<Rightarrow> provider" where
  "ex_provider auth_code sqs need_code submit_code =
     \<lparr>Do = (\<lambda>r. Inr (ex_resp
              (if req_url r = ''https://authserver.mojang.com/authenticate'' then auth_code
               else if req_url r = ''https://api.mojang.com/user/security/challenges'' then 200
               else if req_method r = ''GET'' then need_code
               else submit_code))),
      Unmarshal_auth = (\<lambda>b. (\<lparr>User_Properties = [], User_Username = ''name'',
         User_ID = ''uuid'', Accesstoken = ''tok'', Clienttoken = ''client''\<rparr>, None)),
      Unmarshal_sqs = (\<lambda>b. Inr sqs),
      Marshal = (\<lambda>xs. Inr ''[]'')\<rparr>"

text \<open>An account fresh from its constructor, with three answers, not yet authenticated.\<close>

definition ex_st0 :: st where
  "ex_st0 = \<lparr>account = \<lparr>Email = ''a@b.c'', Password = ''pw'', SecurityQuestions = [],
     SecurityAnswers = [''x'', ''y'', ''z''], Bearer = [], UUID = [], Username = [], Type = ''mj'',
     Authenticated = False\<rparr>, clock = 100, trace = []\<rparr>"

section \<open>What a call of ChangeName does\<close>

lemmas rt_defs = tls_Dial_def conn_Write_def conn_Read_def conn_Close_def time_Sleep_def
  time_Until_def time_Now_def time_After_def emit_def advance_def make_bytes_def

text \<open>When the dial succeeds, the transmission of \<^verbatim>\<open>part_000\<close> runs to its end.\<close>

lemma transmit_dial_ok:
  assumes "dial_err n = None"
  shows "transmit n p u t s =
    (let c3 = clock s + max 0 (t - clock s - Second * 20) + int (dial_lat n) + int (write_lat n);
         c5 = c3 + max 0 (t - c3) + int (write_lat n);
         c6 = c5 + int (read_lat n);
         recvd = take 4096 (response n) @ drop (length (take 4096 (response n))) (make_bytes 4096);
         s7 = s\<lparr>clock := c6,
                trace := trace s @ [Sleep (t - clock s - Second * 20), Dial,
                  Write (take (length p - 2) p), Sleep (t - c3),
                  Write (drop (length p - 2) p), Read 4096, Close]\<rparr>
     in case Atoi (take 3 (drop 9 recvd)) of
          (status, Some e) \<Rightarrow> (Returned (failed u c5, Some e), s7)
        | (status, None) \<Rightarrow>
            (Returned (\<lparr>Account = account s, Username_ret = u, ChangedName = (status < 300),
                        StatusCode = status, SendTime = c5, ReceiveTime = c6\<rparr>, None), s7))"
  using assms
  by (simp add: transmit_def rt_defs Let_def split: prod.splits option.splits)

text \<open>When the dial fails, the first write meets a nil connection.\<close>

lemma transmit_dial_fails:
  assumes "dial_err n = Some m"
  shows "transmit n p u t s =
    (Panic, s\<lparr>clock := clock s + max 0 (t - clock s - Second * 20) + int (dial_lat n),
              trace := trace s @ [Sleep (t - clock s - Second * 20), Dial]\<rparr>)"
  using assms
  by (simp add: transmit_def rt_defs Let_def split: prod.splits option.splits)

lemma ChangeName_acc_ok:
  assumes "dial_err n = None"
    and "ChangeName_acc_payload g (account s) u cp = (p, None)"
  shows "ChangeName_acc g n u t cp s =
    (let d = t - clock s - Second * 20;
         c1 = (if clock s < t then clock s + max 0 d else clock s);
         c3 = c1 + int (dial_lat n) + int (write_lat n);
         c5 = c3 + int (write_lat n) + int (read_lat n);
         recvd = take 12 (response n) @ drop (length (take 12 (response n))) (make_bytes 12);
         status = fst (Atoi (take 3 (drop 9 recvd)));
         s5 = s\<lparr>clock := c5,
                trace := trace s @ (if clock s < t then [Sleep d] else []) @
                  [Dial, Write p, Write crlf, Read 12]\<rparr>
     in (Returned (\<lparr>Account = account s, Username_ret = u, ChangedName = (status < 300),
                    StatusCode = status, SendTime = c3, ReceiveTime = c5\<rparr>, None), s5))"
  using assms
  by (simp add: ChangeName_acc_def rt_defs Let_def split: prod.splits option.splits)

lemma ChangeName_acc_dial_fails:
  assumes "dial_err n = Some m"
    and "ChangeName_acc_payload g (account s) u cp = (p, None)"
  shows "ChangeName_acc g n u t cp s =
    (let d = t - clock s - Second * 20;
         c1 = (if clock s < t then clock s + max 0 d else clock s)
     in (Panic, s\<lparr>clock := c1 + int (dial_lat n),
                  trace := trace s @ (if clock s < t then [Sleep d] else []) @ [Dial]\<rparr>))"
  using assms
  by (simp add: ChangeName_acc_def rt_defs Let_def split: prod.splits option.splits)

lemma ChangeName_acc_gen_fails:
  assumes "ChangeName_acc_payload g (account s) u cp = (p, Some e)"
  shows "ChangeName_acc g n u t cp s = (Returned (failed u zero_Time, Some e), s)"
  using assms
  by (simp add: ChangeName_acc_def rt_defs Let_def split: prod.splits option.splits)

lemma ex_gen_ok:
  "ChangeName_acc_payload ex_gen acc u cp = (fst (ChangeName_acc_payload ex_gen acc u cp), None)"
  by (simp add: ChangeName_acc_payload_def ex_gen_def Let_def)

lemma transmit_events:
  assumes "dial_err n = None"
  shows "new_events s (snd (transmit n p u t s)) =
     [Sleep (t - clock s - Second * 20), Dial, Write (take (length p - 2) p),
      Sleep (t - (clock s + max 0 (t - clock s - Second * 20) + int (dial_lat n)
                    + int (write_lat n))),
      Write (drop (length p - 2) p), Read 4096, Close]"
  using assms
  by (simp add: transmit_dial_ok new_events_def Let_def split: prod.splits option.splits)



lemma transmit_account: "account (snd (transmit n p u t s)) = account s"
  by (cases "dial_err n")
    (simp_all add: transmit_dial_ok transmit_dial_fails Let_def split: prod.splits option.splits)

lemma ChangeName_acc_account: "account (snd (ChangeName_acc g n u t cp s)) = account s"
  by (simp add: ChangeName_acc_def rt_defs Let_def split: prod.splits option.splits)




text \<open>
  What \<^verbatim>\<open>strconv.Atoi\<close> accepts among the three-byte texts: three digits, or a sign and
  two digits.
\<close>

lemma Atoi_three:
  "snd (Atoi [a, b, c]) = None \<longleftrightarrow>
     (is_digit a \<or> a = CHR ''+'' \<or> a = CHR ''-'') \<and> is_digit b \<and> is_digit c"
  by (auto simp: Atoi_def Let_def is_digit_def split: option.splits if_splits)

text \<open>The two prebuilt requests end in the same way in \<open>ChangeName\<close> and \<open>ChangeName1\<close>.\<close>

lemma post_payload_end: "\<exists>q. post_payload acc u = q @ [DQ, CHR ''}'']"
  by (simp add: post_payload_def profile_data_def Let_def)

lemma put_payload_end: "\<exists>q. ChangeName_payload acc u False = q @ crlf @ [CR, LF]"
  by (simp add: ChangeName_payload_def crlf_def)

lemma post1_payload_end: "\<exists>q. ChangeName1_payload acc u False = q @ crlf @ [CR, LF]"
  by (simp add: ChangeName1_payload_def crlf_def)

lemma payload_at_least_two:
  "2 \<le> length (ChangeName_payload acc u cp)"
  "2 \<le> length (ChangeName1_payload acc u cp)"
  by (simp_all add: ChangeName_payload_def ChangeName1_payload_def post_payload_def
      profile_data_def crlf_def)

lemma ChangeName_payload_tail:
  "drop (length (ChangeName_payload acc u cp) - 2) (ChangeName_payload acc u cp)
     = (if cp then [DQ, CHR ''}''] else crlf)"
proof (cases cp)
  case True
  obtain q where "post_payload acc u = q @ [DQ, CHR ''}'']" using post_payload_end by blast
  with True show ?thesis by (simp add: ChangeName_payload_def)
next
  case False
  obtain q where "ChangeName_payload acc u False = q @ crlf @ [CR, LF]"
    using put_payload_end by blast
  with False show ?thesis by (simp add: crlf_def)
qed

lemma ChangeName1_payload_tail:
  "drop (length (ChangeName1_payload acc u cp) - 2) (ChangeName1_payload acc u cp)
     = (if cp then [DQ, CHR ''}''] else crlf)"
proof (cases cp)
  case True
  obtain q where "post_payload acc u = q @ [DQ, CHR ''}'']" using post_payload_end by blast
  with True show ?thesis by (simp add: ChangeName1_payload_def)
next
  case False
  obtain q where "ChangeName1_payload acc u False = q @ crlf @ [CR, LF]"
    using post1_payload_end by blast
  with False show ?thesis by (simp add: crlf_def)
qed

text \<open>Two runs on the example network: a status line with code 200, and a reply that is no
  status line.\<close>

lemma ChangeName_200:
  "fst (ChangeName (ex_net ''HTTP/1.1 200 OK'') ''abc'' 50 False ex_st)
     = Returned (ex_ret_200, None)"
  by (simp add: ChangeName_def transmit_dial_ok ex_net_def ex_st_def ex_ret_200_def Let_def
      Atoi_def is_digit_def Second_def)

lemma ChangeName_no_status_line:
  "fst (ChangeName (ex_net ''<html>oops</html>'') ''abc'' 50 False ex_st)
     = Returned (failed ''abc'' 107, Some (NumError ''s</''))"
  by (simp add: ChangeName_def transmit_dial_ok ex_net_def ex_st_def Let_def Atoi_def
      is_digit_def Second_def)

text \<open>A status line with the digits of \<open>k\<close> at offset 9 gives the code \<open>k\<close>.\<close>

lemma of_char_digit: "d < 10 \<Longrightarrow> (of_char (digit_char d) :: nat) = 48 + d"
  by (simp add: digit_char_def)

lemma is_digit_digit_char: "d < 10 \<Longrightarrow> is_digit (digit_char d)"
  by (simp add: is_digit_def of_char_digit)

lemma digit_char_not_sign:
  assumes "d < 10"
  shows "digit_char d \<noteq> CHR ''-''" "digit_char d \<noteq> CHR ''+''"
proof -
  have "(of_char (digit_char d) :: nat) \<noteq> of_char (CHR ''-'')"
    using assms by (simp add: of_char_digit)
  then show "digit_char d \<noteq> CHR ''-''" by auto
  have "(of_char (digit_char d) :: nat) \<noteq> of_char (CHR ''+'')"
    using assms by (simp add: of_char_digit)
  then show "digit_char d \<noteq> CHR ''+''" by auto
qed

lemma atoi_digits_three:
  assumes "a < 10" "b < 10" "c < 10"
  shows "atoi_digits [digit_char a, digit_char b, digit_char c] 0
           = Some (int a * 100 + int b * 10 + int c)"
  using assms by (simp add: is_digit_digit_char of_char_digit)

lemma Atoi_digit_chars:
  assumes "a < 10" "b < 10" "c < 10"
  shows "Atoi [digit_char a, digit_char b, digit_char c]
           = (int a * 100 + int b * 10 + int c, None)"
proof -
  have "int a * 100 + int b * 10 + int c \<le> 999" using assms by simp
  then have r: "\<not> 2 ^ 63 - 1 < int a * 100 + int b * 10 + int c" by simp
  have s1: "(if [digit_char a, digit_char b, digit_char c] \<noteq> [] \<and>
                 (hd [digit_char a, digit_char b, digit_char c] = CHR ''-'' \<or>
                  hd [digit_char a, digit_char b, digit_char c] = CHR ''+'')
              then tl [digit_char a, digit_char b, digit_char c]
              else [digit_char a, digit_char b, digit_char c])
             = [digit_char a, digit_char b, digit_char c]"
    by (simp add: digit_char_not_sign [OF assms(1)])
  have neg: "\<not> ([digit_char a, digit_char b, digit_char c] \<noteq> [] \<and>
                hd [digit_char a, digit_char b, digit_char c] = CHR ''-'')"
    by (simp add: digit_char_not_sign [OF assms(1)])
  show ?thesis
    unfolding Atoi_def Let_def s1 atoi_digits_three [OF assms]
    using r neg by simp
qed

lemma Atoi_three_digits:
  assumes "k < 1000"
  shows "Atoi (three_digits k) = (int k, None)"
proof -
  have a: "k div 100 < 10" using assms by simp
  have b: "k div 10 mod 10 < 10" by simp
  have c: "k mod 10 < 10" by simp
  have 1: "k div 10 div 10 = k div 100" by (simp add: div_mult2_eq [symmetric])
  have 2: "k = 10 * (k div 10) + k mod 10" by simp
  have 3: "k div 10 = 10 * (k div 10 div 10) + k div 10 mod 10" by simp
  have "k div 100 * 100 + k div 10 mod 10 * 10 + k mod 10 = k"
    using 2 3 unfolding 1 by linarith
  then have "int (k div 100 * 100 + k div 10 mod 10 * 10 + k mod 10) = int k" by (rule arg_cong)
  then have v: "int (k div 100) * 100 + int (k div 10 mod 10) * 10 + int (k mod 10) = int k"
    by (simp only: of_nat_add of_nat_mult of_nat_numeral)
  show ?thesis
    unfolding three_digits_def Atoi_digit_chars [OF a b c] v ..
qed

lemma status_text:
  assumes "length pre = 9"
  shows "take 3 (drop 9 (take 4096 (pre @ three_digits k @ rest)
           @ drop (length (take 4096 (pre @ three_digits k @ rest))) (make_bytes 4096)))
         = three_digits k"
  using assms by (simp add: three_digits_def)

lemma ChangeName_status_line:
  assumes "dial_err n = None" and "response n = pre @ three_digits k @ rest"
    and "length pre = 9" and "k < 1000"
  shows "\<exists>r. fst (ChangeName n u t cp s) = Returned (r, None) \<and> StatusCode r = int k \<and>
           ChangedName r = (k < 300)"
proof -
  have st: "take 3 (drop 9 (take 4096 (response n)
              @ drop (length (take 4096 (response n))) (make_bytes 4096))) = three_digits k"
    unfolding assms(2) using assms(3) by (rule status_text)
  show ?thesis
    unfolding ChangeName_def transmit_dial_ok [OF assms(1)] Let_def st
      Atoi_three_digits [OF assms(4)]
    by simp
qed

section \<open>The success flag\<close>

text \<open>
  C1. Whenever \<open>ChangeName\<close> returns an outcome without an error, that is whenever it has
  extracted a status code, the outcome's \<open>ChangedName\<close> is true exactly when its
  \<open>StatusCode\<close> is below 300. This holds in both revisions. And every code from 0 to 999
  is extracted: when the dial succeeds and the reply carries the three digits of \<open>k\<close> at
  offset 9, the outcome has the status code \<open>k\<close> and \<open>ChangedName\<close> is \<open>k < 300\<close>.
\<close>

theorem ChangedName_iff_status_below_300:
  "(fst (ChangeName n u t cp s) = Returned (r, None) \<longrightarrow> ChangedName r = (StatusCode r < 300)) \<and>
   (fst (ChangeName_acc g n u t cp s) = Returned (r, None)
      \<longrightarrow> ChangedName r = (StatusCode r < 300)) \<and>
   (dial_err n = None \<and> response n = pre @ three_digits k @ rest \<and> length pre = 9 \<and> k < 1000
      \<longrightarrow> (\<exists>r'. fst (ChangeName n u t cp s) = Returned (r', None) \<and> StatusCode r' = int k \<and>
                ChangedName r' = (k < 300)))"
proof (intro conjI impI)
  assume a: "fst (ChangeName n u t cp s) = Returned (r, None)"
  show "ChangedName r = (StatusCode r < 300)"
  proof (cases "dial_err n")
    case None
    with a show ?thesis
      by (auto simp: ChangeName_def transmit_dial_ok Let_def failed_def
          split: prod.splits option.splits)
  next
    case (Some m)
    with a show ?thesis by (simp add: ChangeName_def transmit_dial_fails)
  qed
next
  assume a: "fst (ChangeName_acc g n u t cp s) = Returned (r, None)"
  obtain p e where pe: "ChangeName_acc_payload g (account s) u cp = (p, e)"
    by (cases "ChangeName_acc_payload g (account s) u cp")
  show "ChangedName r = (StatusCode r < 300)"
  proof (cases e)
    case (Some x)
    with a pe show ?thesis by (simp add: ChangeName_acc_gen_fails)
  next
    case None
    note gen_ok = pe [unfolded None]
    show ?thesis
    proof (cases "dial_err n")
      case None
      with a gen_ok show ?thesis
        by (auto simp: ChangeName_acc_ok Let_def)
    next
      case (Some m)
      with a gen_ok show ?thesis
        by (simp add: ChangeName_acc_dial_fails Let_def)
    qed
  qed
next
  assume "dial_err n = None \<and> response n = pre @ three_digits k @ rest \<and> length pre = 9 \<and>
    k < 1000"
  then show "\<exists>r'. fst (ChangeName n u t cp s) = Returned (r', None) \<and> StatusCode r' = int k \<and>
    ChangedName r' = (k < 300)"
    using ChangeName_status_line [of n pre k rest] by blast
qed

theorem ChangedName_iff_status_below_300_witness:
  "fst (ChangeName (ex_net ''HTTP/1.1 200 OK'') ''abc'' 50 False ex_st)
     = Returned (ex_ret_200, None) \<and>
   ChangedName ex_ret_200 = (StatusCode ex_ret_200 < 300)"
  using ChangeName_200
    ChangedName_iff_status_below_300
      [where n = "ex_net ''HTTP/1.1 200 OK''" and u = "''abc''" and t = 50 and cp = False
         and s = ex_st and r = ex_ret_200]
  by blast

section \<open>The two writes\<close>




section \<open>Where the request is split\<close>

text \<open>
  C3, as stated: for both request shapes the second write is the blank-line terminator
  CRLF. For the create-profile shape it is not: the request ends with its JSON body, and
  the second write is the body's last two bytes, a double quote and a closing brace.
\<close>

theorem create_profile_second_write:
  "drop 1 (writes (new_events ex_st
      (snd (ChangeName (ex_net ''HTTP/1.1 200 OK'') ''abc'' 50 True ex_st))))
     = [[CHR 0x22, CHR ''}'']]"
  by (simp add: ChangeName_def transmit_events ex_net_def ChangeName_payload_tail DQ_def)

text \<open>
  C3, amended. For both request shapes, in \<open>ChangeName\<close> and in \<open>ChangeName1\<close>, when the
  dial succeeds there are two writes: the first is the prebuilt request without its last
  two bytes, the second is those two bytes. For the rename shape (\<open>createProfile\<close> false)
  the two bytes are the CRLF of the blank line that ends the request; for the
  create-profile shape they are the end of the JSON body, a double quote and a closing
  brace.
\<close>

theorem request_split_two_bytes_before_its_end:
  assumes "dial_err n = None"
  shows "(let p = ChangeName_payload (account s) u cp;
              a = take (length p - 2) p; b = drop (length p - 2) p
          in writes (new_events s (snd (ChangeName n u t cp s))) = [a, b] \<and> a @ b = p \<and>
             b = (if cp then [DQ, CHR ''}''] else crlf)) \<and>
         (let p = ChangeName1_payload (account s) u cp;
              a = take (length p - 2) p; b = drop (length p - 2) p
          in writes (new_events s (snd (ChangeName1 n u t cp s))) = [a, b] \<and> a @ b = p \<and>
             b = (if cp then [DQ, CHR ''}''] else crlf))"
  using assms
  by (simp add: Let_def ChangeName_def ChangeName1_def transmit_events ChangeName_payload_tail
      ChangeName1_payload_tail del: One_nat_def)

theorem request_split_two_bytes_before_its_end_witness:
  "dial_err (ex_net ''HTTP/1.1 200 OK'') = None \<and>
   drop 1 (writes (new_events ex_st
      (snd (ChangeName (ex_net ''HTTP/1.1 200 OK'') ''abc'' 50 False ex_st)))) = [crlf] \<and>
   drop 1 (writes (new_events ex_st
      (snd (ChangeName1 (ex_net ''HTTP/1.1 200 OK'') ''abc'' 50 True ex_st))))
     = [[DQ, CHR ''}'']]"
proof -
  have h: "dial_err (ex_net ''HTTP/1.1 200 OK'') = None" by (simp add: ex_net_def)
  from request_split_two_bytes_before_its_end [OF h, of ex_st "''abc''" False 50]
    request_split_two_bytes_before_its_end [OF h, of ex_st "''abc''" True 50] h
  show ?thesis by (simp add: Let_def)
qed

section \<open>Failures of the transmission\<close>

text \<open>
  C7 says that on a failed dial \<open>ChangeName\<close> aborts with both timestamps zero. Neither
  revision gets that far: the first \<^verbatim>\<open>conn.Write\<close> stands before the check of the dial's
  error and is called on the nil connection, so the call panics and returns nothing.
\<close>

theorem failed_dial_panics:
  "fst (ChangeName ex_net_down ''abc'' 50 False ex_st) = Panic \<and>
   fst (ChangeName_acc ex_gen ex_net_down ''abc'' 50 False ex_st) = Panic"
  by (simp add: ChangeName_def transmit_dial_fails [of _ "''no such host''"]
      ChangeName_acc_dial_fails [OF _ ex_gen_ok, of _ "''no such host''"] ex_net_down_def
      Let_def)

text \<open>
  The other half of C7 holds in \<^verbatim>\<open>part_000\<close>: when \<^verbatim>\<open>strconv.Atoi\<close> rejects the three bytes
  at offset 9, the call returns that error, the send time it took after the second write,
  and a zero receive time.
\<close>

lemma ChangeName_rejected_status:
  assumes "dial_err n = None"
    and "Atoi (take 3 (drop 9 (take 4096 (response n)
            @ drop (length (take 4096 (response n))) (make_bytes 4096)))) = (v, Some e)"
  shows "\<exists>sendTime. fst (ChangeName n u t cp s) = Returned (failed u sendTime, Some e) \<and>
           SendTime (failed u sendTime) = sendTime \<and>
           ReceiveTime (failed u sendTime) = zero_Time \<and>
           clock s + int (dial_lat n) + 2 * int (write_lat n) \<le> sendTime"
  using assms
  by (simp add: ChangeName_def transmit_dial_ok Let_def failed_def)

section \<open>A target instant that has passed\<close>







section \<open>The account under ChangeName\<close>

lemma payload_reads_Bearer_only:
  assumes "Bearer a = Bearer b"
  shows "ChangeName_payload a u cp = ChangeName_payload b u cp"
    and "ChangeName_acc_payload g a u cp = ChangeName_acc_payload g b u cp"
  using assms
  by (simp_all add: ChangeName_payload_def post_payload_def ChangeName_acc_payload_def)

text \<open>
  C10. \<open>ChangeName\<close> leaves the account it is called on as it was, in both revisions, and
  the request it builds is the same for two accounts with the same bearer: of the
  account, only the bearer is read for it. An outcome returned without an error holds a
  copy of the account; an outcome returned with an error holds the zero account.
\<close>

theorem ChangeName_keeps_the_account:
  "account (snd (ChangeName n u t cp s)) = account s \<and>
   account (snd (ChangeName_acc g n u t cp s)) = account s \<and>
   (Bearer a = Bearer (account s) \<longrightarrow>
      ChangeName_payload a u cp = ChangeName_payload (account s) u cp \<and>
      ChangeName_acc_payload g a u cp = ChangeName_acc_payload g (account s) u cp) \<and>
   (fst (ChangeName n u t cp s) = Returned (r, None) \<longrightarrow> Account r = account s) \<and>
   (fst (ChangeName n u t cp s) = Returned (r, Some e) \<longrightarrow> Account r = zero_MCaccount) \<and>
   (fst (ChangeName_acc g n u t cp s) = Returned (r, None) \<longrightarrow> Account r = account s) \<and>
   (fst (ChangeName_acc g n u t cp s) = Returned (r, Some e) \<longrightarrow> Account r = zero_MCaccount)"
proof -
  have 1: "fst (transmit n p u t s) = Returned (r, None) \<Longrightarrow> Account r = account s" for p
    by (cases "dial_err n")
      (auto simp: transmit_dial_ok transmit_dial_fails Let_def failed_def
        split: prod.splits option.splits)
  have 2: "fst (transmit n p u t s) = Returned (r, Some e) \<Longrightarrow> Account r = zero_MCaccount"
    for p
    by (cases "dial_err n")
      (auto simp: transmit_dial_ok transmit_dial_fails Let_def failed_def
        split: prod.splits option.splits)
  obtain p e' where pe: "ChangeName_acc_payload g (account s) u cp = (p, e')"
    by (cases "ChangeName_acc_payload g (account s) u cp")
  have 3: "fst (ChangeName_acc g n u t cp s) = Returned (r, None) \<Longrightarrow> Account r = account s"
    using pe
    by (cases e'; cases "dial_err n")
      (auto simp: ChangeName_acc_ok ChangeName_acc_dial_fails ChangeName_acc_gen_fails Let_def)
  have 4: "fst (ChangeName_acc g n u t cp s) = Returned (r, Some e)
             \<Longrightarrow> Account r = zero_MCaccount"
    using pe
    by (cases e'; cases "dial_err n")
      (auto simp: ChangeName_acc_ok ChangeName_acc_dial_fails ChangeName_acc_gen_fails Let_def
        failed_def)
  from 1 2 3 4 payload_reads_Bearer_only [of a "account s"] show ?thesis
    by (simp add: ChangeName_def transmit_account ChangeName_acc_account)
qed

theorem ChangeName_keeps_the_account_witness:
  "fst (ChangeName (ex_net ''HTTP/1.1 200 OK'') ''abc'' 50 False ex_st)
     = Returned (ex_ret_200, None) \<and>
   Account ex_ret_200 = account ex_st \<and>
   fst (ChangeName (ex_net ''<html>oops</html>'') ''abc'' 50 False ex_st)
     = Returned (failed ''abc'' 107, Some (NumError ''s</'')) \<and>
   Account (failed ''abc'' 107) = zero_MCaccount \<and>
   account (snd (ChangeName (ex_net ''HTTP/1.1 200 OK'') ''abc'' 50 False ex_st))
     = account ex_st"
  using ChangeName_200 ChangeName_no_status_line
    ChangeName_keeps_the_account
      [where n = "ex_net ''HTTP/1.1 200 OK''" and u = "''abc''" and t = 50 and cp = False
         and s = ex_st and g = ex_gen and r = ex_ret_200 and a = ex_account]
    ChangeName_keeps_the_account
      [where n = "ex_net ''<html>oops</html>''" and u = "''abc''" and t = 50 and cp = False
         and s = ex_st and g = ex_gen and r = "failed ''abc'' 107" and e = "NumError ''s</''"
         and a = ex_account]
  by simp

section \<open>What the authentication steps do\<close>

lemmas http_defs = http_Do_def emit_def AuthenticatedReq_def Let_def

text \<open>No step touches the \<open>Authenticated\<close> flag.\<close>

lemma authenticate_flag:
  "Authenticated (account (snd (authenticate p s))) = Authenticated (account s)"
  by (simp add: authenticate_def http_defs split: sum.splits prod.splits option.splits)

lemma authenticate_acc_flag:
  "Authenticated (account (snd (authenticate_acc p s))) = Authenticated (account s)"
  by (simp add: authenticate_acc_def http_defs split: sum.splits prod.splits option.splits)

lemma loadSecurityQuestions_flag:
  "Authenticated (account (snd (loadSecurityQuestions p s))) = Authenticated (account s)"
  by (simp add: loadSecurityQuestions_def http_defs split: sum.splits prod.splits option.splits)

lemma needToAnswer_flag:
  "Authenticated (account (snd (needToAnswer p s))) = Authenticated (account s)"
  by (simp add: needToAnswer_def http_defs split: sum.splits prod.splits option.splits)

lemma submitAnswers_flag:
  "Authenticated (account (snd (submitAnswers p s))) = Authenticated (account s)"
  by (simp add: submitAnswers_def http_defs split: sum.splits prod.splits option.splits)

lemma submitAnswers_acc_flag:
  "Authenticated (account (snd (submitAnswers_acc p s))) = Authenticated (account s)"
  by (simp add: submitAnswers_acc_def http_defs split: sum.splits prod.splits option.splits)

text \<open>The result of \<open>authenticate\<close> by what the provider answers.\<close>

lemma authenticate_status:
  assumes "Do p (authenticate_request (account s)) = Inr resp"
  shows "fst (authenticate p s) =
     (if resp_StatusCode resp < 300
      then (case resp_Body resp of Inl m \<Rightarrow> Some (LibError m)
            | Inr b \<Rightarrow> map_option LibError (snd (Unmarshal_auth p b)))
      else if resp_StatusCode resp = 403 then Some InvalidCredentials
      else Some ReachedEndOfAuthenticate)"
  using assms
  by (simp add: authenticate_def http_defs split: sum.splits prod.splits option.splits)

lemma authenticate_acc_status:
  assumes "Do p (authenticate_request (account s)) = Inr resp"
  shows "fst (authenticate_acc p s) =
     (if resp_StatusCode resp < 300
      then (case resp_Body resp of Inl m \<Rightarrow> Some (LibError m) | Inr b \<Rightarrow> None)
      else if resp_StatusCode resp = 403 then Some InvalidCredentials
      else Some ReachedEndOfAuthenticate)"
  using assms
  by (simp add: authenticate_acc_def http_defs split: sum.splits prod.splits option.splits)

lemma authenticate_transport:
  assumes "Do p (authenticate_request (account s)) = Inl m"
  shows "fst (authenticate p s) = Some (LibError m)"
    and "fst (authenticate_acc p s) = Some (LibError m)"
  using assms
  by (simp_all add: authenticate_def authenticate_acc_def http_defs)

text \<open>The requests of the first two steps.\<close>

lemma authenticate_trace:
  "trace (snd (authenticate p s)) = trace s @ [HttpDo (authenticate_request (account s))]"
  "trace (snd (authenticate_acc p s)) = trace s @ [HttpDo (authenticate_request (account s))]"
  by (simp_all add: authenticate_def authenticate_acc_def http_defs
      split: sum.splits prod.splits option.splits)

lemma loadSecurityQuestions_trace:
  assumes "loadSecurityQuestions p s = (None, s')"
  shows "\<exists>req. trace s' = trace s @ [HttpDo req] \<and>
           req_url req = ''https://api.mojang.com/user/security/challenges''"
  using assms
  by (auto simp: loadSecurityQuestions_def http_defs Header_Set_def Header_Add_def
      http_NewRequest_def split: sum.splits if_splits)

text \<open>\<open>MojangAuthenticate\<close> in terms of the results of its steps.\<close>

lemma MojangAuthenticate_steps:
  assumes "authenticate p s = (e1, s1)"
    and "loadSecurityQuestions p s1 = (e2, s2)"
    and "needToAnswer p s2 = ((needed, e3), s3)"
    and "submitAnswers p s3 = (e4, s4)"
  shows "MojangAuthenticate p s =
     (if e1 \<noteq> None then (e1, s1)
      else if e2 \<noteq> None then (e2, s2)
      else if SecurityQuestions (account s2) = [] then (None, set_Authenticated s2)
      else if e3 \<noteq> None then (e3, s3)
      else if \<not> needed then (None, set_Authenticated s3)
      else if e4 \<noteq> None then (e4, s4)
      else (None, set_Authenticated s4))"
  using assms by (simp add: MojangAuthenticate_def)

lemma MojangAuthenticate_acc_flag:
  assumes "\<not> Authenticated (account s)"
  shows "Authenticated (account (snd (MojangAuthenticate_acc p s)))
           \<longleftrightarrow> fst (MojangAuthenticate_acc p s) = Returned None"
proof -
  obtain e1 s1 where 1: "authenticate_acc p s = (e1, s1)" by (cases "authenticate_acc p s")
  obtain e2 s2 where 2: "loadSecurityQuestions p s1 = (e2, s2)"
    by (cases "loadSecurityQuestions p s1")
  obtain needed e3 s3 where 3: "needToAnswer p s2 = ((needed, e3), s3)"
    by (cases "needToAnswer p s2") auto
  obtain o4 s4 where 4: "submitAnswers_acc p s3 = (o4, s4)" by (cases "submitAnswers_acc p s3")
  have f1: "\<not> Authenticated (account s1)"
    using authenticate_acc_flag [of p s] 1 assms by simp
  have f2: "\<not> Authenticated (account s2)"
    using loadSecurityQuestions_flag [of p s1] 2 f1 by simp
  have f3: "\<not> Authenticated (account s3)"
    using needToAnswer_flag [of p s2] 3 f2 by simp
  have f4: "\<not> Authenticated (account s4)"
    using submitAnswers_acc_flag [of p s3] 4 f3 by simp
  show ?thesis
    using 1 2 3 4 f1 f2 f3 f4
    by (cases o4) (auto simp: MojangAuthenticate_acc_def set_Authenticated_def)
qed

text \<open>Runs against the example provider.\<close>

lemmas ex_defs = ex_provider_def ex_st0_def ex_resp_def authenticate_request_def
  Header_Set_def Header_Add_def http_NewRequest_def

lemma ex_wrong_answer:
  "fst (MojangAuthenticate (ex_provider 200 [ex_sq 1, ex_sq 2, ex_sq 3] 403 403) ex_st0)
     = Some WrongAnswer"
  by (simp add: MojangAuthenticate_def authenticate_def loadSecurityQuestions_def
      needToAnswer_def submitAnswers_def http_defs ex_defs)

lemma ex_no_questions:
  "fst (authenticate (ex_provider 200 [] 204 204) ex_st0) = None"
  "fst (loadSecurityQuestions (ex_provider 200 [] 204 204)
          (snd (authenticate (ex_provider 200 [] 204 204) ex_st0))) = None"
  "SecurityQuestions (account (snd (loadSecurityQuestions (ex_provider 200 [] 204 204)
          (snd (authenticate (ex_provider 200 [] 204 204) ex_st0))))) = []"
  "fst (authenticate_acc (ex_provider 200 [] 204 204) ex_st0) = None"
  "fst (loadSecurityQuestions (ex_provider 200 [] 204 204)
          (snd (authenticate_acc (ex_provider 200 [] 204 204) ex_st0))) = None"
  "SecurityQuestions (account (snd (loadSecurityQuestions (ex_provider 200 [] 204 204)
          (snd (authenticate_acc (ex_provider 200 [] 204 204) ex_st0))))) = []"
  by (simp_all add: authenticate_def authenticate_acc_def loadSecurityQuestions_def http_defs
      ex_defs)

section \<open>The counts of answers and questions\<close>

text \<open>
  C4. Whatever the number of answers and the number of loaded questions, \<open>submitAnswers\<close>
  fails with one of its two input-validation errors exactly when the two numbers are not
  both 3; and then it returns the state it was given: no request has been built or sent.
  This holds in both revisions.
\<close>

theorem submitAnswers_checks_the_counts_first:
  "((length (SecurityAnswers (account s)) \<noteq> 3 \<or> length (SecurityQuestions (account s)) \<noteq> 3)
      \<longleftrightarrow> (fst (submitAnswers p s) = Some NotEnoughAnswers \<or>
           fst (submitAnswers p s) = Some QuestionsNotLoaded)) \<and>
   ((length (SecurityAnswers (account s)) \<noteq> 3 \<or> length (SecurityQuestions (account s)) \<noteq> 3)
      \<longrightarrow> snd (submitAnswers p s) = s) \<and>
   ((length (SecurityAnswers (account s)) \<noteq> 3 \<or> length (SecurityQuestions (account s)) \<noteq> 3)
      \<longleftrightarrow> (fst (submitAnswers_acc p s) = Returned (Some NotEnoughAnswers) \<or>
           fst (submitAnswers_acc p s) = Returned (Some QuestionsNotLoaded))) \<and>
   ((length (SecurityAnswers (account s)) \<noteq> 3 \<or> length (SecurityQuestions (account s)) \<noteq> 3)
      \<longrightarrow> snd (submitAnswers_acc p s) = s)"
  by (auto simp: submitAnswers_def submitAnswers_acc_def http_defs split: sum.splits)

theorem submitAnswers_checks_the_counts_first_witness:
  "length (SecurityAnswers (account ex_st0)) = 3 \<and>
   length (SecurityQuestions (account ex_st0)) = 0 \<and>
   (fst (submitAnswers (ex_provider 200 [] 204 204) ex_st0) = Some NotEnoughAnswers \<or>
    fst (submitAnswers (ex_provider 200 [] 204 204) ex_st0) = Some QuestionsNotLoaded) \<and>
   snd (submitAnswers (ex_provider 200 [] 204 204) ex_st0) = ex_st0 \<and>
   snd (submitAnswers_acc (ex_provider 200 [] 204 204) ex_st0) = ex_st0"
proof -
  have c: "length (SecurityAnswers (account ex_st0)) = 3 \<and>
           length (SecurityQuestions (account ex_st0)) = 0"
    by (simp add: ex_st0_def)
  with submitAnswers_checks_the_counts_first [of ex_st0 "ex_provider 200 [] 204 204"]
  show ?thesis by simp
qed

section \<open>The Authenticated flag\<close>

text \<open>
  C5. Started on an account that is not authenticated, \<open>MojangAuthenticate\<close> sets the flag
  exactly when every step it needs has succeeded: the credential exchange, the loading
  of the questions and, when there are questions and the probe says an answer is needed,
  the submission of the answers. The flag is set exactly when the call returns no error.
  When a step returns an error, the call returns that error and the state that step left:
  no later step has run, and the flag is still false. In \<^verbatim>\<open>src/account.go\<close> too the flag is
  set exactly when the call returns without error.
\<close>

theorem Authenticated_only_after_every_step:
  assumes "\<not> Authenticated (account s)"
    and "authenticate p s = (e1, s1)"
    and "loadSecurityQuestions p s1 = (e2, s2)"
    and "needToAnswer p s2 = (r3, s3)"
    and "submitAnswers p s3 = (e4, s4)"
  shows "(Authenticated (account (snd (MojangAuthenticate p s)))
            \<longleftrightarrow> e1 = None \<and> e2 = None \<and>
                (SecurityQuestions (account s2) = [] \<or>
                 (snd r3 = None \<and> (\<not> fst r3 \<or> e4 = None)))) \<and>
         (Authenticated (account (snd (MojangAuthenticate p s)))
            \<longleftrightarrow> fst (MojangAuthenticate p s) = None) \<and>
         (e1 \<noteq> None \<longrightarrow> MojangAuthenticate p s = (e1, s1)) \<and>
         (e1 = None \<and> e2 \<noteq> None \<longrightarrow> MojangAuthenticate p s = (e2, s2)) \<and>
         (e1 = None \<and> e2 = None \<and> SecurityQuestions (account s2) \<noteq> [] \<and> snd r3 \<noteq> None
            \<longrightarrow> MojangAuthenticate p s = (snd r3, s3)) \<and>
         (e1 = None \<and> e2 = None \<and> SecurityQuestions (account s2) \<noteq> [] \<and> snd r3 = None \<and>
          fst r3 \<and> e4 \<noteq> None \<longrightarrow> MojangAuthenticate p s = (e4, s4)) \<and>
         (Authenticated (account (snd (MojangAuthenticate_acc p s)))
            \<longleftrightarrow> fst (MojangAuthenticate_acc p s) = Returned None)"
proof -
  have f1: "\<not> Authenticated (account s1)"
    using authenticate_flag [of p s] assms(1,2) by simp
  have f2: "\<not> Authenticated (account s2)"
    using loadSecurityQuestions_flag [of p s1] assms(3) f1 by simp
  have f3: "\<not> Authenticated (account s3)"
    using needToAnswer_flag [of p s2] assms(4) f2 by simp
  have f4: "\<not> Authenticated (account s4)"
    using submitAnswers_flag [of p s3] assms(5) f3 by simp
  have n: "needToAnswer p s2 = ((fst r3, snd r3), s3)" using assms(4) by simp
  note M = MojangAuthenticate_steps [OF assms(2,3) n assms(5)]
  show ?thesis
    using f1 f2 f3 f4 MojangAuthenticate_acc_flag [OF assms(1)]
    by (simp add: M set_Authenticated_def)
qed

theorem Authenticated_only_after_every_step_witness:
  "\<not> Authenticated (account ex_st0) \<and>
   fst (MojangAuthenticate (ex_provider 200 [ex_sq 1, ex_sq 2, ex_sq 3] 403 403) ex_st0)
     = Some WrongAnswer \<and>
   \<not> Authenticated (account (snd
       (MojangAuthenticate (ex_provider 200 [ex_sq 1, ex_sq 2, ex_sq 3] 403 403) ex_st0)))"
proof -
  have h: "\<not> Authenticated (account ex_st0)" by (simp add: ex_st0_def)
  note flag = Authenticated_only_after_every_step
      [OF h prod.collapse [symmetric] prod.collapse [symmetric]
        prod.collapse [symmetric] prod.collapse [symmetric],
       of "ex_provider 200 [ex_sq 1, ex_sq 2, ex_sq 3] 403 403", THEN conjunct2, THEN conjunct1]
  show ?thesis
    using h ex_wrong_answer by (simp add: flag)
qed

section \<open>The errors of authenticate\<close>

text \<open>
  C6, as stated: on a status that is neither a success nor 403 the error carries the
  status code. It does not: for 500 and for 404 \<open>authenticate\<close> returns one and the same
  error, made from a fixed text.
\<close>

theorem authenticate_error_without_status:
  "fst (authenticate (ex_provider 500 [] 204 204) ex_st0) = Some ReachedEndOfAuthenticate \<and>
   fst (authenticate (ex_provider 404 [] 204 204) ex_st0) = Some ReachedEndOfAuthenticate"
  by (simp add: authenticate_status [where resp = "ex_resp 500"]
      authenticate_status [where resp = "ex_resp 404"] ex_defs)

text \<open>
  C6, amended. \<open>authenticate\<close> fails with the invalid-credentials error exactly when the
  provider answers the credential exchange with status 403. On any other status from 300
  up it fails with one fixed error, distinct from the invalid-credentials error, which
  does not carry the status code. Both revisions do so.
\<close>

theorem authenticate_errors_by_status:
  "(fst (authenticate p s) = Some InvalidCredentials
      \<longleftrightarrow> (\<exists>resp. Do p (authenticate_request (account s)) = Inr resp \<and>
                  resp_StatusCode resp = 403)) \<and>
   (fst (authenticate_acc p s) = Some InvalidCredentials
      \<longleftrightarrow> (\<exists>resp. Do p (authenticate_request (account s)) = Inr resp \<and>
                  resp_StatusCode resp = 403)) \<and>
   (Do p (authenticate_request (account s)) = Inr resp \<and> 300 \<le> resp_StatusCode resp \<and>
    resp_StatusCode resp \<noteq> 403
      \<longrightarrow> fst (authenticate p s) = Some ReachedEndOfAuthenticate \<and>
          fst (authenticate_acc p s) = Some ReachedEndOfAuthenticate)"
proof (cases "Do p (authenticate_request (account s))")
  case (Inl m)
  then show ?thesis by (simp add: authenticate_transport)
next
  case (Inr r)
  then show ?thesis
    by (auto simp: authenticate_status authenticate_acc_status split: sum.splits option.splits)
qed

theorem authenticate_errors_by_status_witness:
  "Do (ex_provider 500 [] 204 204) (authenticate_request (account ex_st0)) = Inr (ex_resp 500) \<and>
   300 \<le> resp_StatusCode (ex_resp 500) \<and> resp_StatusCode (ex_resp 500) \<noteq> 403 \<and>
   fst (authenticate (ex_provider 500 [] 204 204) ex_st0) = Some ReachedEndOfAuthenticate \<and>
   fst (authenticate (ex_provider 500 [] 204 204) ex_st0) \<noteq> Some InvalidCredentials"
proof -
  have d: "Do (ex_provider 500 [] 204 204) (authenticate_request (account ex_st0))
             = Inr (ex_resp 500)"
    by (simp add: ex_defs)
  have c: "300 \<le> resp_StatusCode (ex_resp 500) \<and> resp_StatusCode (ex_resp 500) \<noteq> 403"
    by (simp add: ex_resp_def)
  from authenticate_errors_by_status [of "ex_provider 500 [] 204 204" ex_st0 "ex_resp 500"] d c
  show ?thesis by simp
qed

section \<open>An account without security questions\<close>

text \<open>
  C9. When the credential exchange succeeds and the loading of the questions succeeds
  with no question, \<open>MojangAuthenticate\<close> returns without error, in the state the loading
  left with the flag set. The requests it has made are the credential exchange and the
  listing of the challenges, in that order, and no other: neither the probe nor the
  submission, which both go to \<^verbatim>\<open>/user/security/location\<close>, has run. Both revisions do so.
\<close>

theorem no_questions_no_challenge:
  assumes "authenticate p s = (None, s1)"
    and "loadSecurityQuestions p s1 = (None, s2)"
    and "SecurityQuestions (account s2) = []"
    and "authenticate_acc p s = (None, t1)"
    and "loadSecurityQuestions p t1 = (None, t2)"
    and "SecurityQuestions (account t2) = []"
  shows "MojangAuthenticate p s = (None, set_Authenticated s2) \<and>
         Authenticated (account (snd (MojangAuthenticate p s))) \<and>
         map req_url (requests (new_events s (snd (MojangAuthenticate p s))))
           = [''https://authserver.mojang.com/authenticate'',
              ''https://api.mojang.com/user/security/challenges''] \<and>
         MojangAuthenticate_acc p s = (Returned None, set_Authenticated t2) \<and>
         Authenticated (account (snd (MojangAuthenticate_acc p s))) \<and>
         map req_url (requests (new_events s (snd (MojangAuthenticate_acc p s))))
           = [''https://authserver.mojang.com/authenticate'',
              ''https://api.mojang.com/user/security/challenges'']"
proof -
  have tr1: "trace s1 = trace s @ [HttpDo (authenticate_request (account s))]"
    using authenticate_trace(1) [of p s] assms(1) by simp
  obtain req where tr2: "trace s2 = trace s1 @ [HttpDo req]"
    and u: "req_url req = ''https://api.mojang.com/user/security/challenges''"
    using loadSecurityQuestions_trace [OF assms(2)] by blast
  have tr1': "trace t1 = trace s @ [HttpDo (authenticate_request (account s))]"
    using authenticate_trace(2) [of p s] assms(4) by simp
  obtain req' where tr2': "trace t2 = trace t1 @ [HttpDo req']"
    and u': "req_url req' = ''https://api.mojang.com/user/security/challenges''"
    using loadSecurityQuestions_trace [OF assms(5)] by blast
  have a: "req_url (authenticate_request (account s))
             = ''https://authserver.mojang.com/authenticate''"
    by (simp add: authenticate_request_def Header_Set_def http_NewRequest_def)
  have M: "MojangAuthenticate p s = (None, set_Authenticated s2)"
    using assms(1-3) by (simp add: MojangAuthenticate_def)
  have M': "MojangAuthenticate_acc p s = (Returned None, set_Authenticated t2)"
    using assms(4-6) by (simp add: MojangAuthenticate_acc_def)
  show ?thesis
    using tr1 tr2 u tr1' tr2' u' a
    by (simp add: M M' set_Authenticated_def new_events_def)
qed

theorem no_questions_no_challenge_witness:
  "fst (authenticate (ex_provider 200 [] 204 204) ex_st0) = None \<and>
   fst (loadSecurityQuestions (ex_provider 200 [] 204 204)
          (snd (authenticate (ex_provider 200 [] 204 204) ex_st0))) = None \<and>
   fst (MojangAuthenticate (ex_provider 200 [] 204 204) ex_st0) = None \<and>
   Authenticated (account (snd (MojangAuthenticate (ex_provider 200 [] 204 204) ex_st0))) \<and>
   map req_url (requests (new_events ex_st0
       (snd (MojangAuthenticate (ex_provider 200 [] 204 204) ex_st0))))
     = [''https://authserver.mojang.com/authenticate'',
        ''https://api.mojang.com/user/security/challenges''] \<and>
   fst (MojangAuthenticate_acc (ex_provider 200 [] 204 204) ex_st0) = Returned None"
proof -
  have 1: "authenticate (ex_provider 200 [] 204 204) ex_st0
             = (None, snd (authenticate (ex_provider 200 [] 204 204) ex_st0))"
    using ex_no_questions(1) by (simp add: prod_eq_iff)
  have 2: "loadSecurityQuestions (ex_provider 200 [] 204 204)
             (snd (authenticate (ex_provider 200 [] 204 204) ex_st0))
           = (None, snd (loadSecurityQuestions (ex_provider 200 [] 204 204)
                (snd (authenticate (ex_provider 200 [] 204 204) ex_st0))))"
    using ex_no_questions(2) by (simp add: prod_eq_iff)
  have 4: "authenticate_acc (ex_provider 200 [] 204 204) ex_st0
             = (None, snd (authenticate_acc (ex_provider 200 [] 204 204) ex_st0))"
    using ex_no_questions(4) by (simp add: prod_eq_iff)
  have 5: "loadSecurityQuestions (ex_provider 200 [] 204 204)
             (snd (authenticate_acc (ex_provider 200 [] 204 204) ex_st0))
           = (None, snd (loadSecurityQuestions (ex_provider 200 [] 204 204)
                (snd (authenticate_acc (ex_provider 200 [] 204 204) ex_st0))))"
    using ex_no_questions(5) by (simp add: prod_eq_iff)
  note run = no_questions_no_challenge [OF 1 2 ex_no_questions(3) 4 5 ex_no_questions(6)]
  have m: "fst (MojangAuthenticate (ex_provider 200 [] 204 204) ex_st0) = None"
    using run [THEN conjunct1] by simp
  have m': "fst (MojangAuthenticate_acc (ex_provider 200 [] 204 204) ex_st0) = Returned None"
    using run by simp
  from run m m' ex_no_questions(1,2) show ?thesis by blast
qed

end
